theory Spec2Isabelle
  imports Complex_Main "HOL-Library.Sublist"
begin

section \<open>Values, errors and responses\<close>

text \<open>
  Dates are day numbers. A \<^verbatim>\<open>Decimal\<close> amount is an exact rational: the column
  precision of the \<^verbatim>\<open>DecimalField\<close>s (ten digits, two places) is applied by the
  database layer and is not part of the model, and neither are the special values NaN and
  Infinity.
\<close>

type_synonym date = int
type_synonym decimal = rat

text \<open>
  The exceptions the views can meet: the two of \<^verbatim>\<open>objects.get\<close>, the two of the
  \<^verbatim>\<open>decimal\<close> module, the not-found response of \<^verbatim>\<open>get_object_or_404\<close>, and
  the one a filter raises on a string that is no date.
\<close>

datatype error =
  DoesNotExist | MultipleObjectsReturned | InvalidOperation | DivisionByZero | Http404 |
  ValidationError

datatype http_method = GET | POST

datatype level = SUCCESS | ERROR

record response =
  messages :: "(level \<times> string) list"
  page :: string

section \<open>The tables of models.py\<close>

record custom_user =
  user_id :: nat
  username :: string
  password :: string
  user_is_active :: bool
  is_suspended :: bool
  failed_login_attempts :: int
  suspension_start_date :: "date option"
  suspension_end_date :: "date option"

datatype side = Left | Right

text \<open>
  ChartOfAccounts. The free-text columns that no view reads (description, order, statement,
  comment) and the creation time stamp are left out.
\<close>

record chart_of_accounts =
  account_id :: nat
  account_name :: string
  account_number :: nat
  is_active :: bool
  normal_side :: side
  account_category :: string
  account_subcategory :: string
  initial_balance :: decimal
  debit :: decimal
  credit :: decimal
  balance :: decimal
  account_user :: nat

text \<open>CoAEventLog, without the two JSON snapshots.\<close>

record coa_event =
  ev_user :: nat
  ev_action :: string
  ev_chart_of_account :: nat

text \<open>
  The status column holds one of the three \<^verbatim>\<open>STATUS_CHOICES\<close> or the string
  \<^verbatim>\<open>"Rejected"\<close> that \<^verbatim>\<open>journal_entry_page\<close> writes.
\<close>

datatype entry_status = Pending | Approved | Denied | Rejected

record journal_entry =
  je_pk :: nat
  je_date :: date
  je_account :: nat
  je_debit :: decimal
  je_credit :: decimal
  je_status :: entry_status
  je_comments :: "string option"
  je_group :: "nat option"

record general_ledger_row =
  gl_account :: nat
  gl_journal_entry :: "nat option"
  gl_date_of_journal_entry :: date
  gl_description :: string
  gl_debit :: decimal
  gl_credit :: decimal
  gl_balance :: decimal

text \<open>The database: one list of rows per table, in insertion order.\<close>

record db =
  users :: "custom_user list"
  accounts :: "chart_of_accounts list"
  event_log :: "coa_event list"
  journal_entry_groups :: "nat list"
  journal_entries :: "journal_entry list"
  general_ledger :: "general_ledger_row list"


section \<open>The ORM operations the code calls\<close>

text \<open>\<^verbatim>\<open>Model.objects.get(...)\<close>: exactly one matching row, or one of two exceptions.\<close>

definition objects_get :: "('a \<Rightarrow> bool) \<Rightarrow> 'a list \<Rightarrow> error + 'a" where
  "objects_get p rows =
     (case filter p rows of
        [] \<Rightarrow> Inl DoesNotExist
      | [r] \<Rightarrow> Inr r
      | _ \<Rightarrow> Inl MultipleObjectsReturned)"

text \<open>
  \<^verbatim>\<open>instance.save()\<close> on the table \<open>rows\<close>: the row with the instance's primary
  key is overwritten with the instance; when there is none, the instance is inserted.
\<close>

definition save_row :: "('a \<Rightarrow> nat) \<Rightarrow> 'a \<Rightarrow> 'a list \<Rightarrow> 'a list" where
  "save_row pk r rows =
     (if list_ex (\<lambda>x. pk x = pk r) rows
      then map (\<lambda>x. if pk x = pk r then r else x) rows
      else rows @ [r])"

text \<open>The primary key an insert assigns: one more than every key in use.\<close>

definition new_pk :: "nat list \<Rightarrow> nat" where
  "new_pk ids = Suc (fold max ids 0)"

text \<open>Following a foreign key to ChartOfAccounts.\<close>

definition get_account :: "nat \<Rightarrow> db \<Rightarrow> chart_of_accounts option" where
  "get_account i d = find (\<lambda>a. account_id a = i) (accounts d)"

definition get_entry :: "nat \<Rightarrow> db \<Rightarrow> journal_entry option" where
  "get_entry i d = find (\<lambda>e. je_pk e = i) (journal_entries d)"

text \<open>
  \<^verbatim>\<open>with transaction.atomic()\<close>: when the body raises, the writes it has made are
  rolled back; the objects it has changed in memory stay changed.
\<close>

definition atomic :: "(db \<Rightarrow> error option \<times> 's \<times> db) \<Rightarrow> db \<Rightarrow> error option \<times> 's \<times> db" where
  "atomic body d =
     (case body d of
        (None, s, d') \<Rightarrow> (None, s, d')
      | (Some err, s, d') \<Rightarrow> (Some err, s, d))"

section \<open>CustomUser.save and login_user\<close>

text \<open>
  \<^verbatim>\<open>CustomUser.save\<close>: the suspension fields of the instance are adjusted, then the
  instance is written. \<open>today\<close> is \<^verbatim>\<open>timezone.now().date()\<close>. A date object is
  always true in a condition, so the test on the two dates is a test against \<^verbatim>\<open>None\<close>.
\<close>

definition CustomUser_save :: "date \<Rightarrow> custom_user \<Rightarrow> db \<Rightarrow> custom_user \<times> db" where
  "CustomUser_save today self d =
     (let self' =
        (if \<not> is_suspended self
         then self\<lparr>suspension_start_date := None, suspension_end_date := None\<rparr>
         else (case (suspension_start_date self, suspension_end_date self) of
                 (Some s, Some e) \<Rightarrow> self\<lparr>is_suspended := (s \<le> today \<and> today \<le> e)\<rparr>
               | _ \<Rightarrow> self\<lparr>is_suspended := False\<rparr>))
      in (self', d\<lparr>users := save_row user_id self' (users d)\<rparr>))"

text \<open>
  \<^verbatim>\<open>authenticate\<close> is the framework's default backend: the user of that name, when
  the password matches and the user is active. Password hashing is not modelled: the
  stored field is compared with the password given.
\<close>

definition authenticate :: "db \<Rightarrow> string \<Rightarrow> string \<Rightarrow> custom_user option" where
  "authenticate d uname pw =
     (case filter (\<lambda>u. username u = uname) (users d) of
        [u] \<Rightarrow> (if password u = pw \<and> user_is_active u then Some u else None)
      | _ \<Rightarrow> None)"

definition login_user ::
  "date \<Rightarrow> http_method \<Rightarrow> string \<Rightarrow> string \<Rightarrow> db \<Rightarrow> (error + response) \<times> db" where
  "login_user today method uname pw d =
     (if method = POST then
        (case authenticate d uname pw of
           Some user \<Rightarrow>
             (let (user1, d1) =
                (case (suspension_start_date user, suspension_end_date user) of
                   (Some s, Some e) \<Rightarrow>
                     CustomUser_save today
                       (if s \<le> today \<and> today \<le> e then user\<lparr>is_suspended := True\<rparr>
                        else if today > e
                        then user\<lparr>is_suspended := False, suspension_start_date := None,
                               suspension_end_date := None\<rparr>
                        else user) d
                 | _ \<Rightarrow> (user, d))
              in if \<not> is_suspended user1 then
                   (let (user2, d2) =
                      CustomUser_save today (user1\<lparr>failed_login_attempts := 0\<rparr>) d1
                    in (Inr \<lparr>messages = [(SUCCESS, ''You have successfully logged in!'')],
                              page = ''home''\<rparr>, d2))
                 else
                   (Inr \<lparr>messages = [(ERROR,
                      ''Your account has been suspended. Reach out to an admin to unlock it.'')],
                      page = ''login''\<rparr>, d1))
         | None \<Rightarrow>
             (case objects_get (\<lambda>u. username u = uname) (users d) of
                Inr user \<Rightarrow>
                  (let user1 = user\<lparr>failed_login_attempts := failed_login_attempts user + 1\<rparr>
                   in if failed_login_attempts user1 \<ge> 5 then
                        (let (user2, d2) =
                           CustomUser_save today
                             (user1\<lparr>is_suspended := True, failed_login_attempts := 0\<rparr>) d
                         in (Inr \<lparr>messages = [(ERROR,
                               ''You've attempted too many times. Your account has been suspended.'')],
                               page = ''login''\<rparr>, d2))
                      else
                        (let (user2, d2) = CustomUser_save today user1 d
                         in (Inr \<lparr>messages = [(ERROR, ''Invalid username or password.'')],
                                   page = ''login''\<rparr>, d2)))
              | Inl DoesNotExist \<Rightarrow>
                  (Inr \<lparr>messages = [(ERROR, ''Invalid username or password.'')],
                         page = ''login''\<rparr>, d)
              | Inl err \<Rightarrow> (Inl err, d)))
      else (Inr \<lparr>messages = [], page = ''authenticate/login.html''\<rparr>, d))"

section \<open>JournalEntry.approve and journal_entry_page\<close>

text \<open>The decimal digits of a primary key, for the f-string in the ledger description.\<close>

function string_of_nat :: "nat \<Rightarrow> string" where
  "string_of_nat n =
     (if n < 10 then [''0123456789'' ! n]
      else string_of_nat (n div 10) @ [''0123456789'' ! (n mod 10)])"
  by pat_completeness auto
termination
  by (relation "measure id") auto

declare string_of_nat.simps [simp del]

text \<open>The three assignments \<^verbatim>\<open>approve\<close> makes to the account of the entry.\<close>

definition approved_account :: "journal_entry \<Rightarrow> chart_of_accounts \<Rightarrow> chart_of_accounts" where
  "approved_account self account =
     (let account1 = account\<lparr>debit := debit account + je_debit self\<rparr>;
          account2 = account1\<lparr>credit := credit account1 + je_credit self\<rparr>
      in account2\<lparr>balance := initial_balance account2 + debit account2 - credit account2\<rparr>)"

text \<open>The row \<^verbatim>\<open>GeneralLedger.objects.create\<close> is given at the end of \<^verbatim>\<open>approve\<close>.\<close>

definition ledger_row :: "journal_entry \<Rightarrow> chart_of_accounts \<Rightarrow> general_ledger_row" where
  "ledger_row self account =
     \<lparr>gl_account = account_id account,
      gl_journal_entry = Some (je_pk self),
      gl_date_of_journal_entry = je_date self,
      gl_description = ''Approved Journal Entry: '' @ string_of_nat (je_pk self),
      gl_debit = je_debit self,
      gl_credit = je_credit self,
      gl_balance = balance account\<rparr>"

definition GeneralLedger_create :: "general_ledger_row \<Rightarrow> db \<Rightarrow> db" where
  "GeneralLedger_create row d = d\<lparr>general_ledger := general_ledger d @ [row]\<rparr>"

text \<open>
  \<^verbatim>\<open>JournalEntry.approve\<close>. \<open>self\<close> is the instance in memory; the result is the
  exception raised, if any, the instance afterwards and the database afterwards. Reading
  \<^verbatim>\<open>self.account\<close> fetches the account row and raises \<^verbatim>\<open>DoesNotExist\<close> when
  there is none.
\<close>

definition approve :: "journal_entry \<Rightarrow> db \<Rightarrow> error option \<times> journal_entry \<times> db" where
  "approve self d =
     (if je_status self = Pending then
        atomic (\<lambda>d0.
          let self1 = self\<lparr>je_status := Approved\<rparr>;
              d1 = d0\<lparr>journal_entries := save_row je_pk self1 (journal_entries d0)\<rparr>
          in case get_account (je_account self1) d1 of
               None \<Rightarrow> (Some DoesNotExist, self1, d1)
             | Some account \<Rightarrow>
                 (let account1 = approved_account self1 account;
                      d2 = d1\<lparr>accounts := save_row account_id account1 (accounts d1)\<rparr>;
                      d3 = GeneralLedger_create (ledger_row self1 account1) d2
                  in (None, self1, d3))) d
      else (None, self, d))"

text \<open>
  \<^verbatim>\<open>add_comment\<close> reads one entry, under the group's number, and only reports.
\<close>

definition add_comment :: "nat option \<Rightarrow> db \<Rightarrow> (level \<times> string) list" where
  "add_comment group_id d =
     (case group_id of
        None \<Rightarrow> [(ERROR, ''Journal Entry does not exist.'')]
      | Some i \<Rightarrow>
          (case get_entry i d of
             None \<Rightarrow> [(ERROR, ''Journal Entry does not exist.'')]
           | Some e \<Rightarrow> []))"

text \<open>
  The loop of the approve branch over the entries fetched before it starts. After
  \<^verbatim>\<open>entry.approve()\<close> the view reads \<^verbatim>\<open>entry.account\<close> again, which is the
  row as \<^verbatim>\<open>approve\<close> left it, and saves it. An exception ends the request; what
  earlier iterations wrote stays written.
\<close>

fun approve_entries :: "journal_entry list \<Rightarrow> db \<Rightarrow> error option \<times> db" where
  "approve_entries [] d = (None, d)"
| "approve_entries (entry # rest) d =
     (case approve entry d of
        (Some err, entry', d') \<Rightarrow> (Some err, d')
      | (None, entry', d') \<Rightarrow>
          (case get_account (je_account entry') d' of
             None \<Rightarrow> (Some DoesNotExist, d')
           | Some account \<Rightarrow>
               approve_entries rest
                 (d'\<lparr>accounts := save_row account_id account (accounts d')\<rparr>)))"

text \<open>The loop of the reject branch: no test of the status the entry has.\<close>

fun reject_entries ::
  "nat option \<Rightarrow> journal_entry list \<Rightarrow> db \<Rightarrow> (level \<times> string) list \<times> db" where
  "reject_entries group_id [] d = ([], d)"
| "reject_entries group_id (entry # rest) d =
     (let msgs = add_comment group_id d;
          entry' = entry\<lparr>je_status := Rejected\<rparr>;
          d' = d\<lparr>journal_entries := save_row je_pk entry' (journal_entries d)\<rparr>;
          (msgs', d'') = reject_entries group_id rest d'
      in (msgs @ msgs', d''))"

text \<open>
  The POST data of \<^verbatim>\<open>journal_entry_page\<close>: whether the keys \<^verbatim>\<open>approve\<close> and
  \<^verbatim>\<open>reject\<close> are present, and the group number (\<^verbatim>\<open>None\<close> when absent, which
  the filter matches against entries without a group).
\<close>

record journal_post =
  has_approve :: bool
  has_reject :: bool
  group_id :: "nat option"

definition journal_entry_page ::
  "http_method \<Rightarrow> journal_post \<Rightarrow> db \<Rightarrow> (error + response) \<times> db" where
  "journal_entry_page method post d =
     (if method = POST then
        (if has_approve post then
           (let entries = filter (\<lambda>e. je_group e = group_id post) (journal_entries d);
                msgs = add_comment (group_id post) d
            in case approve_entries entries d of
                 (Some err, d') \<Rightarrow> (Inl err, d')
               | (None, d') \<Rightarrow> (Inr \<lparr>messages = msgs, page = ''journal_entry_page''\<rparr>, d'))
         else if has_reject post then
           (let entries = filter (\<lambda>e. je_group e = group_id post) (journal_entries d);
                (msgs, d') = reject_entries (group_id post) entries d
            in (Inr \<lparr>messages = msgs, page = ''journal_entry_page''\<rparr>, d'))
         else (Inr \<lparr>messages = [], page = ''journal_entry_page''\<rparr>, d))
      else
        (Inr \<lparr>messages = [], page = ''main_page/journal_entry/journal_entry_page.html''\<rparr>, d))"

section \<open>add_journal_entry\<close>

text \<open>
  A posted amount: the key is absent (the default \<^verbatim>\<open>0\<close> is used), the string is
  empty, the string is not a number, or it is the number given. Dates posted are dates.
\<close>

datatype amount_field = Missing | Blank | Malformed | Amount decimal

record journal_form =
  account1 :: "string option"
  debit1 :: amount_field
  date1 :: date
  comments1 :: "string option"
  account2 :: "string option"
  credit2 :: amount_field
  date2 :: date
  comments2 :: "string option"

text \<open>Truth of the posted value in \<^verbatim>\<open>if not debit_str\<close>.\<close>

fun entered :: "amount_field \<Rightarrow> bool" where
  "entered Missing = False"
| "entered Blank = False"
| "entered Malformed = True"
| "entered (Amount x) = True"

text \<open>\<^verbatim>\<open>Decimal(debit_str)\<close>: a string that is not a number raises.\<close>

fun Decimal :: "amount_field \<Rightarrow> error + decimal" where
  "Decimal Missing = Inr 0"
| "Decimal Blank = Inl InvalidOperation"
| "Decimal Malformed = Inl InvalidOperation"
| "Decimal (Amount x) = Inr x"

definition JournalEntry_create :: "journal_entry \<Rightarrow> db \<Rightarrow> db" where
  "JournalEntry_create row d =
     d\<lparr>journal_entries := journal_entries d @
         [row\<lparr>je_pk := new_pk (map je_pk (journal_entries d))\<rparr>]\<rparr>"

definition add_page :: string where
  "add_page = ''main_page/journal_entry/add_journal_entry_page.html''"

definition error_page :: "string \<Rightarrow> db \<Rightarrow> (error + response) \<times> db" where
  "error_page msg d = (Inr \<lparr>messages = [(ERROR, msg)], page = add_page\<rparr>, d)"

text \<open>
  The view. The two lookups sit in the \<^verbatim>\<open>try\<close> block, whose handler catches
  \<^verbatim>\<open>DoesNotExist\<close> only. The email sent at the end is not modelled.
\<close>

definition add_journal_entry ::
  "http_method \<Rightarrow> journal_form \<Rightarrow> db \<Rightarrow> (error + response) \<times> db" where
  "add_journal_entry method form d =
     (if method = POST then
        (if \<not> entered (debit1 form) \<or> \<not> entered (credit2 form) then
           error_page ''Debit and credit values must be entered.'' d
         else
           (case Decimal (debit1 form) of
              Inl err \<Rightarrow> (Inl err, d)
            | Inr debit_amount \<Rightarrow>
           (case Decimal (credit2 form) of
              Inl err \<Rightarrow> (Inl err, d)
            | Inr credit_amount \<Rightarrow>
           (if debit_amount \<le> 0 \<or> credit_amount \<le> 0 then
              error_page ''Debit and credit values must be greater than 0.'' d
            else if debit_amount \<noteq> credit_amount then
              error_page ''The total debit and credit values must match.'' d
            else
              (case objects_get (\<lambda>a. Some (account_name a) = account1 form) (accounts d) of
                 Inl DoesNotExist \<Rightarrow>
                   error_page ''One or more accounts do not exist in the Chart of Accounts.'' d
               | Inl err \<Rightarrow> (Inl err, d)
               | Inr acc1 \<Rightarrow>
              (case objects_get (\<lambda>a. Some (account_name a) = account2 form) (accounts d) of
                 Inl DoesNotExist \<Rightarrow>
                   error_page ''One or more accounts do not exist in the Chart of Accounts.'' d
               | Inl err \<Rightarrow> (Inl err, d)
               | Inr acc2 \<Rightarrow>
              (if normal_side acc1 \<noteq> Left then
                 error_page ''Account 1 must be a normal side left account.'' d
               else if normal_side acc2 \<noteq> Right then
                 error_page ''Account 2 must be a normal side right account.'' d
               else
                 (let group = new_pk (journal_entry_groups d);
                      d1 = d\<lparr>journal_entry_groups := journal_entry_groups d @ [group]\<rparr>;
                      d2 = JournalEntry_create
                             \<lparr>je_pk = 0, je_date = date1 form, je_account = account_id acc1,
                              je_debit = debit_amount, je_credit = 0, je_status = Pending,
                              je_comments = comments1 form, je_group = Some group\<rparr> d1;
                      d3 = JournalEntry_create
                             \<lparr>je_pk = 0, je_date = date2 form, je_account = account_id acc2,
                              je_debit = 0, je_credit = credit_amount, je_status = Pending,
                              je_comments = comments2 form, je_group = Some group\<rparr> d2
                  in (Inr \<lparr>messages = [], page = ''journal_entry_page''\<rparr>, d3)))))))))
      else (Inr \<lparr>messages = [], page = add_page\<rparr>, d))"

section \<open>The Chart of Accounts views\<close>

text \<open>
  \<^verbatim>\<open>ChartOfAccountForm\<close> is declared in forms.py, which is not among the sources.
  By the docstring of \<^verbatim>\<open>add_account\<close> it shows every column but \<^verbatim>\<open>user_id\<close>,
  so the posted data is a ChartOfAccounts record whose key and user are ignored. \<open>clean\<close>
  is the outcome of the form's own field checks; a model form also refuses a name or a
  number that another row has, both columns being unique.
\<close>

definition form_is_valid :: "bool \<Rightarrow> chart_of_accounts \<Rightarrow> nat option \<Rightarrow> db \<Rightarrow> bool" where
  "form_is_valid clean data instance d =
     (clean \<and>
      \<not> list_ex (\<lambda>a. (account_name a = account_name data \<or>
                       account_number a = account_number data) \<and>
                      Some (account_id a) \<noteq> instance) (accounts d))"

definition log_event :: "nat \<Rightarrow> string \<Rightarrow> nat \<Rightarrow> db \<Rightarrow> db" where
  "log_event uid action aid d =
     d\<lparr>event_log := event_log d @
         [\<lparr>ev_user = uid, ev_action = action, ev_chart_of_account = aid\<rparr>]\<rparr>"

text \<open>
  \<open>is_superuser\<close> and \<open>uid\<close> are \<^verbatim>\<open>request.user.is_superuser\<close> and
  \<^verbatim>\<open>request.user.id\<close>; a request that fails the \<^verbatim>\<open>user_passes_test\<close> check is
  sent to the login page.
\<close>

definition add_account ::
  "bool \<Rightarrow> nat \<Rightarrow> http_method \<Rightarrow> bool \<Rightarrow> chart_of_accounts \<Rightarrow> db \<Rightarrow> (error + response) \<times> db" where
  "add_account is_superuser uid method clean data d =
     (if \<not> is_superuser then (Inr \<lparr>messages = [], page = ''login''\<rparr>, d)
      else if method = POST \<and> form_is_valid clean data None d then
        (case find (\<lambda>u. user_id u = uid) (users d) of
           None \<Rightarrow> (Inl Http404, d)
         | Some user_instance \<Rightarrow>
             (Inr \<lparr>messages = [(SUCCESS, ''Account added!'')], page = ''chart_of_accounts''\<rparr>,
              d\<lparr>accounts := accounts d @
                  [data\<lparr>account_id := new_pk (map account_id (accounts d)),
                        account_user := user_id user_instance\<rparr>]\<rparr>))
      else
        (Inr \<lparr>messages = [], page = ''main_page/chart_of_accounts/add_coa_account.html''\<rparr>, d))"

definition edit_account ::
  "nat \<Rightarrow> http_method \<Rightarrow> nat \<Rightarrow> bool \<Rightarrow> chart_of_accounts \<Rightarrow> db \<Rightarrow> (error + response) \<times> db" where
  "edit_account uid method aid clean data d =
     (case get_account aid d of
        None \<Rightarrow> (Inl Http404, d)
      | Some account \<Rightarrow>
          (if method = POST \<and> form_is_valid clean data (Some aid) d then
             (let account' = data\<lparr>account_id := account_id account,
                                   account_user := account_user account\<rparr>;
                  d1 = d\<lparr>accounts := save_row account_id account' (accounts d)\<rparr>;
                  d2 = log_event uid ''modified'' aid d1
              in (Inr \<lparr>messages = [(SUCCESS, ''Account updated successfully!'')],
                        page = ''chart_of_accounts''\<rparr>, d2))
           else
             (Inr \<lparr>messages = [],
                    page = ''main_page/chart_of_accounts/edit_coa_account.html''\<rparr>, d)))"

definition deactivate_account ::
  "bool \<Rightarrow> nat \<Rightarrow> nat \<Rightarrow> db \<Rightarrow> (error + response) \<times> db" where
  "deactivate_account is_superuser uid aid d =
     (if \<not> is_superuser then (Inr \<lparr>messages = [], page = ''login''\<rparr>, d)
      else
        (case get_account aid d of
           None \<Rightarrow> (Inl Http404, d)
         | Some account \<Rightarrow>
             (if balance account > 0 then
                (Inr \<lparr>messages = [(ERROR,
                   ''Accounts with a balance greater than 0 cannot be deactivated.'')],
                   page = ''chart_of_accounts''\<rparr>, d)
              else
                (let account' = account\<lparr>is_active := False\<rparr>;
                     d1 = d\<lparr>accounts := save_row account_id account' (accounts d)\<rparr>;
                     d2 = log_event uid ''deactivated'' aid d1
                 in (Inr \<lparr>messages = [], page = ''chart_of_accounts''\<rparr>, d2)))))"

definition activate_account ::
  "bool \<Rightarrow> nat \<Rightarrow> nat \<Rightarrow> db \<Rightarrow> (error + response) \<times> db" where
  "activate_account is_superuser uid aid d =
     (if \<not> is_superuser then (Inr \<lparr>messages = [], page = ''login''\<rparr>, d)
      else
        (case get_account aid d of
           None \<Rightarrow> (Inl Http404, d)
         | Some account \<Rightarrow>
             (let account' = account\<lparr>is_active := True\<rparr>;
                  d1 = d\<lparr>accounts := save_row account_id account' (accounts d)\<rparr>;
                  d2 = log_event uid ''activated'' aid d1
              in (Inr \<lparr>messages = [], page = ''chart_of_accounts''\<rparr>, d2))))"

section \<open>The other views that write users\<close>

text \<open>
  \<^verbatim>\<open>SignUpForm\<close> is declared in forms.py as well: \<open>data\<close> is the user it builds and
  \<open>clean\<close> the outcome of its field checks; the user name is unique. Emails are not
  modelled.
\<close>

definition register_user ::
  "date \<Rightarrow> http_method \<Rightarrow> bool \<Rightarrow> custom_user \<Rightarrow> db \<Rightarrow> (error + response) \<times> db" where
  "register_user today method clean data d =
     (if method = POST \<and> clean \<and> \<not> list_ex (\<lambda>u. username u = username data) (users d) then
        (let user = data\<lparr>user_id := new_pk (map user_id (users d)), user_is_active := False\<rparr>;
             (user', d') = CustomUser_save today user d
         in (Inr \<lparr>messages = [(SUCCESS,
               ''You have successfully registered. Please wait for admin to confirm your account.'')],
               page = ''login''\<rparr>, d'))
      else (Inr \<lparr>messages = [], page = ''authenticate/register.html''\<rparr>, d))"

text \<open>
  \<^verbatim>\<open>activate\<close>: \<open>uid\<close> is the decoded key (\<^verbatim>\<open>None\<close> when decoding fails) and
  \<open>token_ok\<close> the outcome of the token check.
\<close>

definition activate ::
  "date \<Rightarrow> nat option \<Rightarrow> bool \<Rightarrow> db \<Rightarrow> (error + response) \<times> db" where
  "activate today uid token_ok d =
     (case (case uid of None \<Rightarrow> None | Some i \<Rightarrow> find (\<lambda>u. user_id u = i) (users d)) of
        Some user \<Rightarrow>
          (if token_ok then
             (let (user', d') = CustomUser_save today (user\<lparr>user_is_active := True\<rparr>) d
              in (Inr \<lparr>messages = [(SUCCESS, ''User account is now active.'')],
                        page = ''home''\<rparr>, d'))
           else (Inr \<lparr>messages = [(ERROR, ''Activation link is invalid!'')],
                       page = ''authenticate/login.html''\<rparr>, d))
      | None \<Rightarrow> (Inr \<lparr>messages = [(ERROR, ''Activation link is invalid!'')],
                       page = ''authenticate/login.html''\<rparr>, d))"

text \<open>\<open>session_username\<close> is \<^verbatim>\<open>request.session.get("username")\<close>.\<close>

definition reset_password ::
  "date \<Rightarrow> http_method \<Rightarrow> string \<Rightarrow> string \<Rightarrow> string option \<Rightarrow> db \<Rightarrow> (error + response) \<times> db" where
  "reset_password today method password1 password2 session_username d =
     (if method = POST then
        (if password1 = password2 then
           (case session_username of
              None \<Rightarrow> (Inr \<lparr>messages = [(ERROR, ''No user found.'')], page = ''question''\<rparr>, d)
            | Some uname \<Rightarrow>
                (case objects_get (\<lambda>u. username u = uname) (users d) of
                   Inl err \<Rightarrow> (Inl err, d)
                 | Inr user \<Rightarrow>
                     (if password user = password1 then
                        (Inr \<lparr>messages = [(ERROR, ''That password has already been used'')],
                               page = ''reset_password''\<rparr>, d)
                      else
                        (let (user', d') = CustomUser_save today (user\<lparr>password := password1\<rparr>) d
                         in (Inr \<lparr>messages = [(SUCCESS, ''Your password has been reset.'')],
                                   page = ''login''\<rparr>, d')))))
         else (Inr \<lparr>messages = [(ERROR, ''Your passwords do not match.'')],
                     page = ''authenticate/reset_password.html''\<rparr>, d))
      else (Inr \<lparr>messages = [], page = ''authenticate/reset_password.html''\<rparr>, d))"

section \<open>Requests and reachable database states\<close>

text \<open>
  One constructor for each view of views.py that writes to the database. The remaining
  views only read it (the reports, the ledger, the logs, the home page) or only touch the
  session and the mail (\<^verbatim>\<open>logout_user\<close>, \<^verbatim>\<open>forgot_password\<close>, \<^verbatim>\<open>question\<close>,
  the email views).
\<close>

datatype request =
    LoginUser http_method string string
  | RegisterUser http_method bool custom_user
  | Activate "nat option" bool
  | ResetPassword http_method string string "string option"
  | AddAccount bool nat http_method bool chart_of_accounts
  | EditAccount nat http_method nat bool chart_of_accounts
  | DeactivateAccount bool nat nat
  | ActivateAccount bool nat nat
  | JournalEntryPage http_method journal_post
  | AddJournalEntry http_method journal_form

fun handle :: "date \<Rightarrow> request \<Rightarrow> db \<Rightarrow> (error + response) \<times> db" where
  "handle today (LoginUser method uname pw) d = login_user today method uname pw d"
| "handle today (RegisterUser method clean data) d = register_user today method clean data d"
| "handle today (Activate uid token_ok) d = activate today uid token_ok d"
| "handle today (ResetPassword method p1 p2 uname) d = reset_password today method p1 p2 uname d"
| "handle today (AddAccount su uid method clean data) d = add_account su uid method clean data d"
| "handle today (EditAccount uid method aid clean data) d = edit_account uid method aid clean data d"
| "handle today (DeactivateAccount su uid aid) d = deactivate_account su uid aid d"
| "handle today (ActivateAccount su uid aid) d = activate_account su uid aid d"
| "handle today (JournalEntryPage method post) d = journal_entry_page method post d"
| "handle today (AddJournalEntry method form) d = add_journal_entry method form d"


section \<open>The financial reports\<close>















section \<open>calculate_ratios\<close>

text \<open>
  \<^verbatim>\<open>round(x, 2)\<close> on a \<^verbatim>\<open>Decimal\<close>: to two places, a tie going to the even
  neighbour. A quotient of decimals is taken exactly here, where the \<^verbatim>\<open>decimal\<close>
  module first rounds it to 28 significant digits.
\<close>

definition round2 :: "decimal \<Rightarrow> decimal" where
  "round2 x =
     (let y = x * 100; f = \<lfloor>y\<rfloor>; r = y - of_int f
      in (if r < 1 / 2 then of_int f
          else if r > 1 / 2 then of_int (f + 1)
          else if even f then of_int f
          else of_int (f + 1)) / 100)"

text \<open>
  \<^verbatim>\<open>round(a / b, 2)\<close>. Dividing by zero raises: \<^verbatim>\<open>DivisionByZero\<close>, or
  \<^verbatim>\<open>InvalidOperation\<close> when the dividend is zero too.
\<close>

definition quotient2 :: "decimal \<Rightarrow> decimal \<Rightarrow> error + decimal" where
  "quotient2 a b =
     (if b = 0 then Inl (if a = 0 then InvalidOperation else DivisionByZero)
      else Inr (round2 (a / b)))"

definition bind_err :: "error + 'a \<Rightarrow> ('a \<Rightarrow> error + 'b) \<Rightarrow> error + 'b" where
  "bind_err m f = (case m of Inl err \<Rightarrow> Inl err | Inr v \<Rightarrow> f v)"

definition GREEN :: string where "GREEN = ''#28a745''"
definition YELLOW :: string where "YELLOW = ''#ffc107''"
definition RED :: string where "RED = ''#dc3545''"

text \<open>
  The thresholds written as float literals, at the value the float has: a
  \<^verbatim>\<open>Decimal\<close> is compared with a float exactly.
\<close>

definition float_0_2 :: decimal where "float_0_2 = 3602879701896397 / 18014398509481984"
definition float_0_6 :: decimal where "float_0_6 = 5404319552844595 / 9007199254740992"
definition float_0_7 :: decimal where "float_0_7 = 3152519739159347 / 4503599627370496"
definition float_0_4 :: decimal where "float_0_4 = 3602879701896397 / 9007199254740992"
definition float_0_15 :: decimal where "float_0_15 = 5404319552844595 / 36028797018963968"
definition float_0_05 :: decimal where "float_0_05 = 3602879701896397 / 72057594037927936"
definition float_0_03 :: decimal where "float_0_03 = 1080863910568919 / 36028797018963968"
definition float_0_01 :: decimal where "float_0_01 = 5764607523034235 / 576460752303423488"
definition float_0_1 :: decimal where "float_0_1 = 3602879701896397 / 36028797018963968"

text \<open>One entry of the dictionary returned: the key, the value and the colour.\<close>

type_synonym ratio = "string \<times> decimal \<times> string"

text \<open>\<^verbatim>\<open>GREEN if v >= hi else YELLOW if v >= lo else RED\<close>, and the same with \<open>\<le>\<close>.\<close>

definition at_least :: "string \<Rightarrow> decimal \<Rightarrow> decimal \<Rightarrow> decimal \<Rightarrow> ratio" where
  "at_least name v hi lo = (name, v, if v \<ge> hi then GREEN else if v \<ge> lo then YELLOW else RED)"

definition at_most :: "string \<Rightarrow> decimal \<Rightarrow> decimal \<Rightarrow> decimal \<Rightarrow> ratio" where
  "at_most name v lo hi = (name, v, if v \<le> lo then GREEN else if v \<le> hi then YELLOW else RED)"

text \<open>The variables the loop over the accounts assigns; all start at zero.\<close>

record figures =
  current_assets :: decimal
  current_liabilities :: decimal
  cash :: decimal
  operating_cash_flow :: decimal
  total_liabilities :: decimal
  total_assets :: decimal
  shareholder_equity :: decimal
  operating_income :: decimal
  interest_expenses :: decimal
  total_debt_service :: decimal
  net_sales :: decimal
  cost_of_goods_sold :: decimal
  gross_profit :: decimal
  net_income :: decimal
  inventory :: decimal

definition initial_figures :: figures where
  "initial_figures =
     \<lparr>current_assets = 0, current_liabilities = 0, cash = 0, operating_cash_flow = 0,
      total_liabilities = 0, total_assets = 0, shareholder_equity = 0, operating_income = 0,
      interest_expenses = 0, total_debt_service = 0, net_sales = 0, cost_of_goods_sold = 0,
      gross_profit = 0, net_income = 0, inventory = 0\<rparr>"

text \<open>The two variables that are initialised and never assigned.\<close>

definition net_credit_sales :: decimal where "net_credit_sales = 0"
definition average_accounts_receivable :: decimal where "average_accounts_receivable = 0"

definition assign_account :: "chart_of_accounts \<Rightarrow> figures \<Rightarrow> figures" where
  "assign_account account f =
     (let b = round2 (balance account) in
      if account_name account = ''Cash'' then f\<lparr>cash := b\<rparr>
      else if account_name account = ''Operating Cash'' then f\<lparr>operating_cash_flow := b\<rparr>
      else if account_name account = ''Total Debt Service'' then f\<lparr>total_debt_service := b\<rparr>
      else if account_name account = ''Operating Income'' then f\<lparr>operating_income := b\<rparr>
      else if account_name account = ''Interest Expense'' then f\<lparr>interest_expenses := b\<rparr>
      else if account_name account = ''Net Sales'' then f\<lparr>net_sales := b\<rparr>
      else if account_name account = ''Cost of Goods Sold'' then f\<lparr>cost_of_goods_sold := b\<rparr>
      else if account_name account = ''Gross Profit'' then f\<lparr>gross_profit := b\<rparr>
      else if account_name account = ''Net Income'' then f\<lparr>net_income := b\<rparr>
      else if account_name account = ''Inventory'' then f\<lparr>inventory := b\<rparr>
      else if account_category account = ''Assets''
        then f\<lparr>current_assets := current_assets f + b, total_assets := total_assets f + b\<rparr>
      else if account_category account = ''Liabilities''
        then f\<lparr>current_liabilities := current_liabilities f + b,
               total_liabilities := total_liabilities f + b\<rparr>
      else if account_category account = ''Equity''
        then f\<lparr>shareholder_equity := shareholder_equity f + b\<rparr>
      else f)"

text \<open>The blocks of the function, in its order; each gives the entries it adds.\<close>

definition liquidity_ratios :: "figures \<Rightarrow> error + ratio list" where
  "liquidity_ratios f =
     (if current_liabilities f \<noteq> 0 then
        bind_err (quotient2 (current_assets f) (current_liabilities f)) (\<lambda>current_ratio.
        bind_err (quotient2 (current_assets f - inventory f) (current_liabilities f)) (\<lambda>acid_test_ratio.
        bind_err (quotient2 (cash f) (current_liabilities f)) (\<lambda>cash_ratio.
        bind_err (quotient2 (operating_cash_flow f) (current_liabilities f)) (\<lambda>operating_cash_flow_ratio.
        Inr [at_least ''current_ratio'' current_ratio (3 / 2) 1,
             at_least ''acid_test_ratio'' acid_test_ratio 1 (1 / 2),
             at_least ''cash_ratio'' cash_ratio (1 / 2) float_0_2,
             at_least ''operating_cash_flow_ratio'' operating_cash_flow_ratio 1 (1 / 2)]))))
      else Inr [])"

definition leverage_ratios :: "figures \<Rightarrow> error + ratio list" where
  "leverage_ratios f =
     (if total_assets f \<noteq> 0 \<and> total_liabilities f \<noteq> 0 then
        bind_err (quotient2 (total_liabilities f) (total_assets f)) (\<lambda>debt_ratio.
        bind_err (quotient2 (total_liabilities f) (shareholder_equity f)) (\<lambda>debt_to_equity_ratio.
        bind_err (if interest_expenses f \<noteq> 0
                  then quotient2 (operating_income f) (interest_expenses f)
                  else Inr 0) (\<lambda>interest_coverage_ratio.
        bind_err (if total_debt_service f \<noteq> 0
                  then quotient2 (operating_income f) (total_debt_service f)
                  else Inr 0) (\<lambda>debt_service_coverage_ratio.
        Inr [at_most ''debt_ratio'' debt_ratio (1 / 2) float_0_6,
             at_most ''debt_to_equity_ratio'' debt_to_equity_ratio float_0_7 1,
             at_least ''interest_coverage_ratio'' interest_coverage_ratio 3 (3 / 2),
             at_least ''debt_service_coverage_ratio'' debt_service_coverage_ratio 1 (1 / 2)]))))
      else Inr [])"

definition efficiency_ratios :: "figures \<Rightarrow> error + ratio list" where
  "efficiency_ratios f =
     (if total_assets f \<noteq> 0 then
        bind_err (quotient2 (net_sales f) (total_assets f)) (\<lambda>asset_turnover_ratio.
        bind_err (if inventory f \<noteq> 0
                  then quotient2 (cost_of_goods_sold f) (inventory f)
                  else Inr 0) (\<lambda>inventory_turnover_ratio.
        bind_err (if inventory_turnover_ratio \<noteq> 0
                  then quotient2 365 inventory_turnover_ratio
                  else Inr 0) (\<lambda>days_sales_in_inventory_ratio.
        Inr [at_least ''asset_turnover_ratio'' asset_turnover_ratio 1 (1 / 2),
             at_least ''inventory_turnover_ratio'' inventory_turnover_ratio 6 3,
             at_most ''days_sales_in_inventory_ratio'' days_sales_in_inventory_ratio 60 120])))
      else Inr [])"

definition receivables_ratios :: "figures \<Rightarrow> error + ratio list" where
  "receivables_ratios f =
     (if shareholder_equity f \<noteq> 0 then
        bind_err (if average_accounts_receivable \<noteq> 0
                  then quotient2 net_credit_sales average_accounts_receivable
                  else Inr 0) (\<lambda>receivables_turnover_ratio.
        Inr [at_least ''receivables_turnover_ratio'' receivables_turnover_ratio 10 7])
      else Inr [])"

definition profitability_ratios :: "figures \<Rightarrow> error + ratio list" where
  "profitability_ratios f =
     (if net_sales f \<noteq> 0 then
        bind_err (quotient2 (gross_profit f) (net_sales f)) (\<lambda>gross_margin_ratio.
        bind_err (quotient2 (operating_income f) (net_sales f)) (\<lambda>operating_margin_ratio.
        Inr [at_least ''gross_margin_ratio'' gross_margin_ratio float_0_4 float_0_2,
             at_least ''operating_margin_ratio'' operating_margin_ratio float_0_15 float_0_05]))
      else Inr [])"

definition return_on_assets :: "figures \<Rightarrow> error + ratio list" where
  "return_on_assets f =
     (if total_assets f \<noteq> 0 then
        bind_err (quotient2 (net_income f) (total_assets f)) (\<lambda>return_on_assets_ratio.
        Inr [at_least ''return_on_assets_ratio'' return_on_assets_ratio float_0_03 float_0_01])
      else Inr [])"

definition return_on_equity :: "figures \<Rightarrow> error + ratio list" where
  "return_on_equity f =
     (if shareholder_equity f \<noteq> 0 then
        bind_err (quotient2 (net_income f) (shareholder_equity f)) (\<lambda>return_on_equity_ratio.
        Inr [at_least ''return_on_equity_ratio'' return_on_equity_ratio float_0_1 float_0_05])
      else Inr [])"

text \<open>
  The function: the loop over all accounts, then the blocks one after the other; the
  dictionary is the list of its entries in the order they are added.
\<close>

definition calculate_ratios :: "db \<Rightarrow> error + ratio list" where
  "calculate_ratios d =
     (let f = fold assign_account (accounts d) initial_figures in
      bind_err (liquidity_ratios f) (\<lambda>r1.
      bind_err (leverage_ratios f) (\<lambda>r2.
      bind_err (efficiency_ratios f) (\<lambda>r3.
      bind_err (receivables_ratios f) (\<lambda>r4.
      bind_err (profitability_ratios f) (\<lambda>r5.
      bind_err (return_on_assets f) (\<lambda>r6.
      bind_err (return_on_equity f) (\<lambda>r7.
      Inr (r1 @ r2 @ r3 @ r4 @ r5 @ r6 @ r7)))))))))"

section \<open>Predicates of the properties\<close>
















section \<open>Example data\<close>

text \<open>Running a list of requests, each on the database the one before left.\<close>

fun run :: "date \<Rightarrow> request list \<Rightarrow> db \<Rightarrow> db" where
  "run today [] d = d"
| "run today (r # rs) d = run today rs (snd (handle today r d))"

definition alice :: custom_user where
  "alice = \<lparr>user_id = 1, username = ''alice'', password = ''secret'', user_is_active = True,
     is_suspended = False, failed_login_attempts = 4, suspension_start_date = None,
     suspension_end_date = None\<rparr>"

definition cash_account :: chart_of_accounts where
  "cash_account = \<lparr>account_id = 1, account_name = ''Petty Cash'', account_number = 101,
     is_active = True, normal_side = Left, account_category = ''Assets'',
     account_subcategory = ''Current Assets'', initial_balance = 100, debit = 0, credit = 0,
     balance = 100, account_user = 1\<rparr>"

definition loan_account :: chart_of_accounts where
  "loan_account = \<lparr>account_id = 2, account_name = ''Bank Loan'', account_number = 201,
     is_active = True, normal_side = Right, account_category = ''Liabilities'',
     account_subcategory = ''Long Term'', initial_balance = 50, debit = 0, credit = 0,
     balance = 50, account_user = 1\<rparr>"

definition pending_entry :: journal_entry where
  "pending_entry = \<lparr>je_pk = 1, je_date = 10, je_account = 1, je_debit = 25, je_credit = 0,
     je_status = Pending, je_comments = None, je_group = Some 1\<rparr>"

definition counter_entry :: journal_entry where
  "counter_entry = \<lparr>je_pk = 2, je_date = 10, je_account = 2, je_debit = 0, je_credit = 25,
     je_status = Pending, je_comments = None, je_group = Some 1\<rparr>"

definition ledger_db :: db where
  "ledger_db = \<lparr>users = [alice], accounts = [cash_account, loan_account], event_log = [],
     journal_entry_groups = [1], journal_entries = [pending_entry, counter_entry],
     general_ledger = []\<rparr>"



definition approve_post :: journal_post where
  "approve_post = \<lparr>has_approve = True, has_reject = False, group_id = Some 1\<rparr>"

definition reject_post :: journal_post where
  "reject_post = \<lparr>has_approve = False, has_reject = True, group_id = Some 1\<rparr>"

definition approved_db :: db where
  "approved_db = run 0 [JournalEntryPage POST approve_post] ledger_db"

definition rejected_db :: db where
  "rejected_db = run 0 [JournalEntryPage POST reject_post] approved_db"



section \<open>Properties of the ORM operations\<close>

lemma find_append_rows:
  "find P (xs @ ys) = (case find P xs of None \<Rightarrow> find P ys | Some x \<Rightarrow> Some x)"
  by (induction xs) auto

lemma find_save_row: "find (\<lambda>x. pk x = pk r) (save_row pk r rows) = Some r"
proof (cases "list_ex (\<lambda>x. pk x = pk r) rows")
  case True
  then show ?thesis
    by (induction rows) (auto simp: save_row_def)
next
  case False
  then have "find (\<lambda>x. pk x = pk r) rows = None"
    by (induction rows) auto
  with False show ?thesis
    by (simp add: save_row_def find_append_rows)
qed



section \<open>Saving a user\<close>

text \<open>
  C8. Saving a user whose \<open>is_suspended\<close> flag is set stores a user that is suspended
  exactly when both suspension dates are set and today lies between them, both ends
  included; saving a user whose flag is not set stores both suspension dates as
  \<^verbatim>\<open>None\<close>. What is stored is the row found under the user's key afterwards.
\<close>

theorem CustomUser_save_suspension:
  "(is_suspended u \<longrightarrow>
      is_suspended (fst (CustomUser_save today u d)) =
        (\<exists>s e. suspension_start_date u = Some s \<and> suspension_end_date u = Some e \<and>
               s \<le> today \<and> today \<le> e)) \<and>
   (\<not> is_suspended u \<longrightarrow>
      suspension_start_date (fst (CustomUser_save today u d)) = None \<and>
      suspension_end_date (fst (CustomUser_save today u d)) = None) \<and>
   find (\<lambda>x. user_id x = user_id u) (users (snd (CustomUser_save today u d))) =
     Some (fst (CustomUser_save today u d))"
proof -
  have key: "user_id (fst (CustomUser_save today u d)) = user_id u"
    by (simp add: CustomUser_save_def Let_def split: option.splits)
  have row: "users (snd (CustomUser_save today u d)) =
      save_row user_id (fst (CustomUser_save today u d)) (users d)"
    by (simp add: CustomUser_save_def Let_def)
  have stored: "find (\<lambda>x. user_id x = user_id u) (users (snd (CustomUser_save today u d))) =
     Some (fst (CustomUser_save today u d))"
    unfolding row using find_save_row [of user_id "fst (CustomUser_save today u d)" "users d"]
    by (simp add: key)
  have flag: "is_suspended u \<longrightarrow>
      is_suspended (fst (CustomUser_save today u d)) =
        (\<exists>s e. suspension_start_date u = Some s \<and> suspension_end_date u = Some e \<and>
               s \<le> today \<and> today \<le> e)"
    by (simp add: CustomUser_save_def Let_def split: option.splits)
  have dates: "\<not> is_suspended u \<longrightarrow>
      suspension_start_date (fst (CustomUser_save today u d)) = None \<and>
      suspension_end_date (fst (CustomUser_save today u d)) = None"
    by (simp add: CustomUser_save_def Let_def)
  from flag dates stored show ?thesis by blast
qed

text \<open>
  A user suspended from day 5 to day 9: still suspended when saved on day 7, no longer
  when saved on day 12; and a user who is not suspended loses the two dates.
\<close>

theorem CustomUser_save_suspension_witness:
  "is_suspended (alice\<lparr>is_suspended := True, suspension_start_date := Some 5,
       suspension_end_date := Some 9\<rparr>) \<and>
   is_suspended (fst (CustomUser_save 7
     (alice\<lparr>is_suspended := True, suspension_start_date := Some 5,
            suspension_end_date := Some 9\<rparr>) ledger_db)) \<and>
   \<not> is_suspended (fst (CustomUser_save 12
     (alice\<lparr>is_suspended := True, suspension_start_date := Some 5,
            suspension_end_date := Some 9\<rparr>) ledger_db)) \<and>
   \<not> is_suspended (alice\<lparr>suspension_start_date := Some 5\<rparr>) \<and>
   suspension_start_date
     (fst (CustomUser_save 7 (alice\<lparr>suspension_start_date := Some 5\<rparr>) ledger_db)) = None"
  using
    CustomUser_save_suspension [of "alice\<lparr>is_suspended := True, suspension_start_date := Some 5,
       suspension_end_date := Some 9\<rparr>" 7 ledger_db]
    CustomUser_save_suspension [of "alice\<lparr>is_suspended := True, suspension_start_date := Some 5,
       suspension_end_date := Some 9\<rparr>" 12 ledger_db]
    CustomUser_save_suspension [of "alice\<lparr>suspension_start_date := Some 5\<rparr>" 7 ledger_db]
  by (simp add: alice_def)

section \<open>Approving a journal entry\<close>









section \<open>Failed logins\<close>

text \<open>
  A wrong password for a user who has no suspension window: the attempt that reaches
  five sets the flag, and \<^verbatim>\<open>CustomUser.save\<close> clears it again before the row is
  written. The stored user has a counter of zero and is not suspended.
\<close>

lemma fifth_failure_lifted:
  assumes "authenticate d uname pw = None"
    and "objects_get (\<lambda>u. username u = uname) (users d) = Inr u"
    and "4 \<le> failed_login_attempts u"
    and "suspension_start_date u = None \<or> suspension_end_date u = None"
  shows "find (\<lambda>x. user_id x = user_id u) (users (snd (login_user today POST uname pw d))) =
     Some (u\<lparr>failed_login_attempts := 0, is_suspended := False\<rparr>)"
proof -
  define u' where "u' = u\<lparr>failed_login_attempts := 0, is_suspended := False\<rparr>"
  from assms
  have "snd (login_user today POST uname pw d) = d\<lparr>users := save_row user_id u' (users d)\<rparr>"
    by (auto simp: login_user_def CustomUser_save_def Let_def u'_def split: option.splits)
  moreover have "user_id u' = user_id u"
    by (simp add: u'_def)
  ultimately show ?thesis
    using find_save_row [of user_id u' "users d"] by (simp add: u'_def)
qed

text \<open>Below five the counter goes up by one, and the flags stay as they are stored.\<close>

lemma earlier_failure_counted:
  assumes "authenticate d uname pw = None"
    and "objects_get (\<lambda>u. username u = uname) (users d) = Inr u"
    and "failed_login_attempts u < 4"
    and "\<not> is_suspended u"
  shows "find (\<lambda>x. user_id x = user_id u) (users (snd (login_user today POST uname pw d))) =
     Some (u\<lparr>failed_login_attempts := failed_login_attempts u + 1,
             suspension_start_date := None, suspension_end_date := None\<rparr>)"
proof -
  define u' where "u' = u\<lparr>failed_login_attempts := failed_login_attempts u + 1,
             suspension_start_date := None, suspension_end_date := None\<rparr>"
  from assms
  have "snd (login_user today POST uname pw d) = d\<lparr>users := save_row user_id u' (users d)\<rparr>"
    by (auto simp: login_user_def CustomUser_save_def Let_def u'_def split: option.splits)
  moreover have "user_id u' = user_id u"
    by (simp add: u'_def)
  ultimately show ?thesis
    using find_save_row [of user_id u' "users d"] by (simp add: u'_def)
qed

text \<open>
  C7. The claim that the fifth wrong password leaves the stored user suspended fails on
  the code: alice has four failed attempts and no suspension dates; after one more wrong
  password the view reports a suspension, and the stored row has a counter of zero and
  \<open>is_suspended\<close> false.
\<close>

theorem login_user_fifth_failure_not_suspended:
  "login_user 7 POST ''alice'' ''wrong'' ledger_db =
     (Inr \<lparr>messages = [(ERROR,
        ''You've attempted too many times. Your account has been suspended.'')],
        page = ''login''\<rparr>,
      ledger_db\<lparr>users := [alice\<lparr>failed_login_attempts := 0\<rparr>]\<rparr>) \<and>
   failed_login_attempts alice = 4 \<and>
   is_suspended (alice\<lparr>failed_login_attempts := 0\<rparr>) = False"
  by code_simp

section \<open>The General Ledger is only appended to\<close>






















section \<open>Journal entry pairs in reachable states\<close>


































section \<open>Rejecting after approval\<close>

text \<open>
  C2. The claim that an Approved status is never changed again fails on the code: the
  reject branch of \<^verbatim>\<open>journal_entry_page\<close> writes Rejected without looking at the
  status. Here the approved group of the example is rejected: both entries end Rejected,
  while the accounts and the General Ledger keep what the approval posted.
\<close>

theorem approved_entries_rejected:
  "map je_status (journal_entries approved_db) = [Approved, Approved] \<and>
   snd (journal_entry_page POST reject_post approved_db) = rejected_db \<and>
   map je_status (journal_entries rejected_db) = [Rejected, Rejected] \<and>
   accounts rejected_db = accounts approved_db \<and>
   general_ledger rejected_db = general_ledger approved_db \<and>
   length (general_ledger approved_db) = 2"
  by code_simp

section \<open>Creating a journal entry pair\<close>






section \<open>The reports do not read the status\<close>

























section \<open>Division in calculate_ratios\<close>

lemma quotient2_ok: "b \<noteq> 0 \<Longrightarrow> quotient2 a b = Inr (round2 (a / b))"
  by (simp add: quotient2_def)

text \<open>
  Every division but one is under a test of its divisor. The function raises exactly
  when the leverage block is entered (total assets and total liabilities are not zero)
  and shareholder equity is zero.
\<close>

lemma calculate_ratios_raises_iff:
  "(\<exists>err. calculate_ratios d = Inl err) \<longleftrightarrow>
     (total_assets (fold assign_account (accounts d) initial_figures) \<noteq> 0 \<and>
      total_liabilities (fold assign_account (accounts d) initial_figures) \<noteq> 0 \<and>
      shareholder_equity (fold assign_account (accounts d) initial_figures) = 0)"
proof -
  define f where "f = fold assign_account (accounts d) initial_figures"
  have l: "\<exists>r. liquidity_ratios f = Inr r"
    by (simp add: liquidity_ratios_def bind_err_def quotient2_ok)
  have e: "\<exists>r. efficiency_ratios f = Inr r"
    by (simp add: efficiency_ratios_def bind_err_def quotient2_ok)
  have rc: "\<exists>r. receivables_ratios f = Inr r"
    by (simp add: receivables_ratios_def bind_err_def average_accounts_receivable_def)
  have p: "\<exists>r. profitability_ratios f = Inr r"
    by (simp add: profitability_ratios_def bind_err_def quotient2_ok)
  have a: "\<exists>r. return_on_assets f = Inr r"
    by (simp add: return_on_assets_def bind_err_def quotient2_ok)
  have q: "\<exists>r. return_on_equity f = Inr r"
    by (simp add: return_on_equity_def bind_err_def quotient2_ok)
  have lev: "(\<exists>err. leverage_ratios f = Inl err) \<longleftrightarrow>
      (total_assets f \<noteq> 0 \<and> total_liabilities f \<noteq> 0 \<and> shareholder_equity f = 0)"
    by (auto simp add: leverage_ratios_def bind_err_def quotient2_def)
  from l e rc p a q obtain r1 r3 r4 r5 r6 r7 where
    "liquidity_ratios f = Inr r1" "efficiency_ratios f = Inr r3" "receivables_ratios f = Inr r4"
    "profitability_ratios f = Inr r5" "return_on_assets f = Inr r6" "return_on_equity f = Inr r7"
    by blast
  then have "(\<exists>err. calculate_ratios d = Inl err) \<longleftrightarrow> (\<exists>err. leverage_ratios f = Inl err)"
    by (cases "leverage_ratios f") (simp_all add: calculate_ratios_def f_def [symmetric] bind_err_def)
  with lev show ?thesis by (simp add: f_def)
qed

text \<open>
  C9. The claim that \<^verbatim>\<open>calculate_ratios\<close> never raises fails on the code: with an
  account of category Assets at balance 100, one of category Liabilities at balance 50
  and no Equity account, the quotient of total liabilities and shareholder equity divides
  by zero.
\<close>

theorem calculate_ratios_divides_by_zero:
  "map (\<lambda>a. (account_category a, balance a)) (accounts ledger_db) =
     [(''Assets'', 100), (''Liabilities'', 50)] \<and>
   calculate_ratios ledger_db = Inl DivisionByZero"
  by code_simp

end
